theory Spec2Isabelle
  imports Main "HOL-Library.Word"
begin

section \<open>Hardware-wallet plugin base: OP\_RETURN output validation and plugin lifecycle\<close>

text \<open>
  A shallow embedding of \<^verbatim>\<open>electroncash_plugins/hw_wallet/plugin.py\<close>.
  Python exceptions are values of the type \<open>error\<close>; a function that can raise returns
  \<open>error + 'a\<close>, with \<open>Inl\<close> for the exception. Python's unbounded integers are \<open>int\<close>,
  the elements of a \<^verbatim>\<open>bytes\<close> object are \<open>8 word\<close>.
\<close>

subsection \<open>Exceptions, bytes and strings\<close>

datatype error =
    AssertionError
  | Exception string
  | RuntimeError string
  | ScriptError string
  | NotImplementedError

type_synonym byte = "8 word"

text \<open>Decimal rendering of an integer, as \<^verbatim>\<open>str.format\<close> does for \<^verbatim>\<open>{}\<close>.\<close>

definition digit_char :: "nat \<Rightarrow> char" where
  "digit_char d = char_of (48 + d)"

function str_nat :: "nat \<Rightarrow> string" where
  "str_nat n = (if n < 10 then [digit_char n] else str_nat (n div 10) @ [digit_char (n mod 10)])"
  by pat_completeness auto
termination
  by (relation "measure id") auto

definition str_int :: "int \<Rightarrow> string" where
  "str_int i = (if i < 0 then CHR ''-'' # str_nat (nat (- i)) else str_nat (nat i))"

text \<open>
  Modelled from the spec: the translation functions \<^verbatim>\<open>_\<close> and \<^verbatim>\<open>ngettext\<close> of
  \<^verbatim>\<open>electroncash.i18n\<close> are not part of the sources. Localization of error strings is
  out of scope (section 1 of the specification), so \<open>gettext\<close> returns the message itself,
  and the message "pluralizes on whether \<^verbatim>\<open>max_pushes == 1\<close>" (section 4.4, step 4).
  A message template with a field, such as \<^verbatim>\<open>"... {max_pushes} data push."\<close>, is a
  function from the value of the field to the message, and \<^verbatim>\<open>format\<close> applies it.
\<close>

definition gettext :: "string \<Rightarrow> string" where
  "gettext msg = msg"

definition ngettext :: "'a \<Rightarrow> 'a \<Rightarrow> int \<Rightarrow> 'a" where
  "ngettext singular plural n = (if n = 1 then singular else plural)"

subsection \<open>Scripts and their operations\<close>

text \<open>
  Modelled from the spec: the constants \<^verbatim>\<open>TYPE_SCRIPT\<close> (\<^verbatim>\<open>electroncash.bitcoin\<close>) and
  \<^verbatim>\<open>OpCodes\<close> (\<^verbatim>\<open>electroncash.address\<close>) are not part of the sources. The output kind
  "distinguishes pay-to-script outputs from standard payment outputs" (section 6); the
  opcode values are those of the script format: \<^verbatim>\<open>OP_RETURN\<close> is \<open>0x6a\<close>, opcodes below
  \<^verbatim>\<open>OP_PUSHDATA1\<close> (\<open>0x4c\<close>) push that many bytes, and \<^verbatim>\<open>OP_PUSHDATA1\<close>,
  \<^verbatim>\<open>OP_PUSHDATA2\<close>, \<^verbatim>\<open>OP_PUSHDATA4\<close> are followed by a little-endian length of one, two
  and four bytes.
\<close>

definition TYPE_SCRIPT :: int where
  "TYPE_SCRIPT = 2"

definition OP_PUSHDATA1 :: byte where
  "OP_PUSHDATA1 = 0x4c"

definition OP_PUSHDATA2 :: byte where
  "OP_PUSHDATA2 = 0x4d"

definition OP_PUSHDATA4 :: byte where
  "OP_PUSHDATA4 = 0x4e"

definition OP_RETURN :: byte where
  "OP_RETURN = 0x6a"

text \<open>An operation is a pair of the opcode and its inline data, \<open>None\<close> when it has none.\<close>

type_synonym operation = "byte \<times> byte list option"

text \<open>The address of a script output carries the raw script.\<close>

datatype address = ScriptOutput (script: "byte list")

text \<open>An output is the triple \<^verbatim>\<open>(typ, address, amount)\<close>.\<close>

type_synonym "output" = "int \<times> address \<times> int"

fun le_bytes_to_nat :: "byte list \<Rightarrow> nat" where
  "le_bytes_to_nat [] = 0"
| "le_bytes_to_nat (b # bs) = unat b + 256 * le_bytes_to_nat bs"

text \<open>
  Modelled from the spec: \<^verbatim>\<open>Script.get_ops\<close> (\<^verbatim>\<open>electroncash.address\<close>) is not part of
  the sources. It parses "the address's script into an ordered sequence of operations
  (opcode + optional inline data)" by "a flat, non-recursive scan of opcode/length/data
  triples" (section 4.4, step 2); a push operation is "encoded as a length prefix followed
  by that many data bytes" (glossary). \<open>get_op\<close> reads one operation from the front of a
  non-empty script and returns it with the rest of the script; a length prefix or a
  payload that runs past the end of the script cannot be decomposed and is a
  \<open>ScriptError\<close>.
\<close>

definition read_data :: "byte \<Rightarrow> nat \<Rightarrow> byte list \<Rightarrow> error + (operation \<times> byte list)" where
  "read_data op dlen rest =
     (if dlen > length rest then Inl (ScriptError ''truncated script'')
      else Inr ((op, Some (take dlen rest)), drop dlen rest))"

definition read_length :: "byte \<Rightarrow> nat \<Rightarrow> byte list \<Rightarrow> error + (operation \<times> byte list)" where
  "read_length op k rest =
     (if k > length rest then Inl (ScriptError ''truncated script'')
      else read_data op (le_bytes_to_nat (take k rest)) (drop k rest))"

definition get_op :: "byte \<Rightarrow> byte list \<Rightarrow> error + (operation \<times> byte list)" where
  "get_op op rest =
     (if op \<le> OP_PUSHDATA4 then
        (if op < OP_PUSHDATA1 then read_data op (unat op) rest
         else if op = OP_PUSHDATA1 then read_length op 1 rest
         else if op = OP_PUSHDATA2 then read_length op 2 rest
         else read_length op 4 rest)
      else Inr ((op, None), rest))"

function get_ops :: "byte list \<Rightarrow> error + operation list" where
  "get_ops [] = Inr []"
| "get_ops (op # rest) =
     (case get_op op rest of
        Inl e \<Rightarrow> Inl e
      | Inr (x, rest') \<Rightarrow>
          (case get_ops rest' of
             Inl e \<Rightarrow> Inl e
           | Inr ops \<Rightarrow> Inr (x # ops)))"
  by pat_completeness auto

subsection \<open>The OP\_RETURN validator\<close>

definition validate_op_return_output_and_get_data ::
  "output \<Rightarrow> int \<Rightarrow> int option \<Rightarrow> error + byte list" where
  "validate_op_return_output_and_get_data output max_size max_pushes =
     (case output of (typ, address, amount) \<Rightarrow>
        let max_pushes = (case max_pushes of None \<Rightarrow> max_size | Some m \<Rightarrow> m) in
        if \<not> max_pushes \<ge> 1 then Inl AssertionError
        else if typ \<noteq> TYPE_SCRIPT then
          Inl (Exception (''Unexpected output type: '' @ str_int typ))
        else
          (case get_ops (script address) of
             Inl e \<Rightarrow> Inl e
           | Inr ops \<Rightarrow>
               let num_pushes = int (length ops) - 1 in
               if length ops < 1 \<or> fst (ops ! 0) \<noteq> OP_RETURN then
                 Inl (RuntimeError (gettext ''Only OP_RETURN scripts are supported.''))
               else if num_pushes < 1 \<or> num_pushes > max_pushes
                     \<or> list_ex (\<lambda>i. snd (ops ! (i + 1)) = None) [0..<nat num_pushes] then
                 Inl (RuntimeError
                   ((ngettext (\<lambda>n. ''OP_RETURN is limited to '' @ str_int n @ '' data push.'')
                              (\<lambda>n. ''OP_RETURN is limited to '' @ str_int n @ '' data pushes.'')
                              max_pushes) max_pushes))
               else
                 let data = drop 2 (script address) in
                 if int (length data) > max_size then
                   Inl (RuntimeError (gettext
                     (''OP_RETURN data size exceeds the maximum of '' @ str_int max_size @ '' bytes.'')))
                 else if amount \<noteq> 0 then
                   Inl (RuntimeError (gettext ''Amount for OP_RETURN output must be zero.''))
                 else Inr data))"

text \<open>
  The limit on pushes the checks use: \<^verbatim>\<open>None\<close> stands for \<^verbatim>\<open>max_size\<close>.
\<close>

definition effective_max_pushes :: "int \<Rightarrow> int option \<Rightarrow> int" where
  "effective_max_pushes max_size max_pushes =
     (case max_pushes of None \<Rightarrow> max_size | Some m \<Rightarrow> m)"

text \<open>
  The specification names the validator's rejections (section 7); in the code each is an
  exception with its message.
\<close>

definition InvalidOutputKind :: "int \<Rightarrow> error" where
  "InvalidOutputKind typ = Exception (''Unexpected output type: '' @ str_int typ)"

definition MissingMarker :: error where
  "MissingMarker = RuntimeError (gettext ''Only OP_RETURN scripts are supported.'')"

definition TooManyOrInvalidPushes :: "int \<Rightarrow> error" where
  "TooManyOrInvalidPushes max_pushes =
     RuntimeError
       ((ngettext (\<lambda>n. ''OP_RETURN is limited to '' @ str_int n @ '' data push.'')
                  (\<lambda>n. ''OP_RETURN is limited to '' @ str_int n @ '' data pushes.'')
                  max_pushes) max_pushes)"

definition PayloadTooLarge :: "int \<Rightarrow> error" where
  "PayloadTooLarge max_size =
     RuntimeError (gettext
       (''OP_RETURN data size exceeds the maximum of '' @ str_int max_size @ '' bytes.''))"

definition NonZeroAmount :: error where
  "NonZeroAmount = RuntimeError (gettext ''Amount for OP_RETURN output must be zero.'')"

text \<open>
  A byte string is one data push when the parser reads it as exactly one operation that
  carries inline data.
\<close>

definition is_data_push :: "byte list \<Rightarrow> bool" where
  "is_data_push p =
     (case get_ops p of
        Inr [(op, Some d)] \<Rightarrow> True
      | _ \<Rightarrow> False)"

subsection \<open>Plugins, keystores and wallets\<close>




record plugin =
  keystore_class :: string
  libraries_available :: bool













text \<open>
  The abstract methods of \<^verbatim>\<open>HW_PluginBase\<close>: each raises \<^verbatim>\<open>NotImplementedError\<close>
  whatever its arguments.
\<close>

definition setup_device :: "plugin \<Rightarrow> 'd \<Rightarrow> 'z \<Rightarrow> 'p \<Rightarrow> error + 'r" where
  "setup_device self device_info wizard purpose = Inl NotImplementedError"

definition create_client :: "plugin \<Rightarrow> 'd \<Rightarrow> 'h \<Rightarrow> error + 'c option" where
  "create_client self device handler = Inl NotImplementedError"

definition get_xpub :: "plugin \<Rightarrow> 'd \<Rightarrow> string \<Rightarrow> 'x \<Rightarrow> 'z \<Rightarrow> error + string" where
  "get_xpub self device_id derivation xtype wizard = Inl NotImplementedError"

text \<open>
  \<^verbatim>\<open>only_hook_if_libraries_available\<close>: the wrapped function takes the plugin, its
  arguments and the world, and either raises or returns a value (\<open>None\<close> for Python's
  \<^verbatim>\<open>None\<close>) and the world it leaves.
\<close>

definition only_hook_if_libraries_available ::
  "(plugin \<Rightarrow> 'a \<Rightarrow> 'w \<Rightarrow> error + ('r option \<times> 'w)) \<Rightarrow> plugin \<Rightarrow> 'a \<Rightarrow> 'w \<Rightarrow> error + ('r option \<times> 'w)" where
  "only_hook_if_libraries_available func =
     (\<lambda>self args w. if \<not> libraries_available self then Inr (None, w) else func self args w)"

section \<open>Properties\<close>

subsection \<open>The script parser terminates\<close>

lemma read_data_shorter:
  "read_data op dlen rest = Inr (x, rest') \<Longrightarrow> length rest' \<le> length rest"
  by (auto simp: read_data_def split: if_splits)

lemma read_length_shorter:
  "read_length op k rest = Inr (x, rest') \<Longrightarrow> length rest' \<le> length rest"
  by (auto simp: read_length_def split: if_splits dest!: read_data_shorter)

lemma get_op_shorter:
  "get_op op rest = Inr (x, rest') \<Longrightarrow> length rest' \<le> length rest"
  by (auto simp: get_op_def split: if_splits dest: read_data_shorter read_length_shorter)

termination get_ops
  by (relation "measure length") (auto dest: get_op_shorter)

subsection \<open>Facts about the parser\<close>

declare str_nat.simps [simp del]

lemma read_data_error: "read_data op n r = Inl e \<Longrightarrow> e = ScriptError ''truncated script''"
  by (simp add: read_data_def split: if_splits)

lemma read_length_error: "read_length op k r = Inl e \<Longrightarrow> e = ScriptError ''truncated script''"
  by (simp add: read_length_def read_data_error split: if_splits)

lemma get_op_error: "get_op op r = Inl e \<Longrightarrow> e = ScriptError ''truncated script''"
  by (simp add: get_op_def read_data_error read_length_error split: if_splits)

text \<open>The only exception of the parser is the one for a truncated script.\<close>

lemma get_ops_error: "get_ops s = Inl e \<Longrightarrow> e = ScriptError ''truncated script''"
proof (induction s arbitrary: e rule: get_ops.induct)
  case 1
  then show ?case by simp
next
  case (2 op rest)
  then show ?case
    by (auto split: sum.splits dest: get_op_error)
qed

text \<open>Bytes that follow a script do not change how the script itself is read.\<close>

lemma read_data_append:
  "read_data op n r = Inr (x, r') \<Longrightarrow> read_data op n (r @ s) = Inr (x, r' @ s)"
  by (auto simp: read_data_def split: if_splits)

lemma read_length_append:
  "read_length op k r = Inr (x, r') \<Longrightarrow> read_length op k (r @ s) = Inr (x, r' @ s)"
  by (auto simp: read_length_def read_data_append split: if_splits)

lemma get_op_append:
  "get_op op r = Inr (x, r') \<Longrightarrow> get_op op (r @ s) = Inr (x, r' @ s)"
  by (auto simp: get_op_def read_data_append read_length_append split: if_splits)

lemma get_ops_append:
  "get_ops r = Inr xs \<Longrightarrow> get_ops s = Inr ys \<Longrightarrow> get_ops (r @ s) = Inr (xs @ ys)"
proof (induction r arbitrary: xs rule: get_ops.induct)
  case 1
  then show ?case by simp
next
  case (2 op rest)
  from "2.prems"(1) obtain x rest' ops where
    a: "get_op op rest = Inr (x, rest')" and b: "get_ops rest' = Inr ops" and c: "xs = x # ops"
    by (auto split: sum.splits)
  have "get_ops (rest' @ s) = Inr (ops @ ys)"
    using "2.IH" [OF a refl b "2.prems"(2)] .
  with a c show ?case
    by (simp add: get_op_append)
qed

lemma is_data_pushD:
  "is_data_push p \<Longrightarrow> \<exists>op d. get_ops p = Inr [(op, Some d)]"
  by (auto simp: is_data_push_def split: sum.splits list.splits option.splits)

lemma get_ops_pushes:
  "\<forall>p\<in>set ps. is_data_push p \<Longrightarrow>
     \<exists>ops. get_ops (concat ps) = Inr ops \<and> length ops = length ps \<and> (\<forall>x\<in>set ops. snd x \<noteq> None)"
proof (induction ps)
  case Nil
  then show ?case by simp
next
  case (Cons p ps)
  then obtain ops where o: "get_ops (concat ps) = Inr ops" "length ops = length ps"
    "\<forall>x\<in>set ops. snd x \<noteq> None"
    by auto
  from Cons.prems have "is_data_push p" by simp
  then obtain op d where "get_ops p = Inr [(op, Some d)]"
    using is_data_pushD by blast
  then have "get_ops (concat (p # ps)) = Inr ((op, Some d) # ops)"
    using get_ops_append [OF _ o(1)] by simp
  with o show ?case by simp
qed

lemma get_ops_marker:
  "get_ops (OP_RETURN # s) =
     (case get_ops s of Inl e \<Rightarrow> Inl e | Inr ops \<Rightarrow> Inr ((OP_RETURN, None) # ops))"
proof -
  have "get_op OP_RETURN s = Inr ((OP_RETURN, None), s)"
    by (simp add: get_op_def OP_RETURN_def OP_PUSHDATA4_def)
  then show ?thesis by simp
qed

subsection \<open>The validator on a parsed script\<close>

lemma any_missing_data_iff:
  "list_ex (\<lambda>i. snd ((m # rest) ! (i + 1)) = None) [0..<nat (int (length (m # rest)) - 1)]
     \<longleftrightarrow> (\<exists>x\<in>set rest. snd x = None)"
proof -
  have "(\<exists>i<length rest. snd (rest ! i) = None) \<longleftrightarrow> (\<exists>x\<in>set rest. snd x = None)"
    by (metis in_set_conv_nth)
  then show ?thesis
    by (simp add: list_ex_iff Bex_def)
qed

text \<open>
  The checks in the order of the code, for a script with at least one operation \<open>m\<close>,
  followed by the operations \<open>rest\<close>.
\<close>

lemma validate_parsed:
  assumes "get_ops (script a) = Inr (m # rest)"
  shows "validate_op_return_output_and_get_data (typ, a, amount) max_size max_pushes =
     (let mp = effective_max_pushes max_size max_pushes in
      if mp < 1 then Inl AssertionError
      else if typ \<noteq> TYPE_SCRIPT then Inl (InvalidOutputKind typ)
      else if fst m \<noteq> OP_RETURN then Inl MissingMarker
      else if rest = [] \<or> int (length rest) > mp \<or> (\<exists>x\<in>set rest. snd x = None)
        then Inl (TooManyOrInvalidPushes mp)
      else if int (length (drop 2 (script a))) > max_size then Inl (PayloadTooLarge max_size)
      else if amount \<noteq> 0 then Inl NonZeroAmount
      else Inr (drop 2 (script a)))"
  unfolding validate_op_return_output_and_get_data_def effective_max_pushes_def
    InvalidOutputKind_def MissingMarker_def TooManyOrInvalidPushes_def PayloadTooLarge_def
    NonZeroAmount_def Let_def
  using any_missing_data_iff [of m rest]
  by (simp add: assms not_le del: upt_Suc)

lemma validate_empty:
  assumes "get_ops (script a) = Inr []"
  shows "validate_op_return_output_and_get_data (typ, a, amount) max_size max_pushes =
     (let mp = effective_max_pushes max_size max_pushes in
      if mp < 1 then Inl AssertionError
      else if typ \<noteq> TYPE_SCRIPT then Inl (InvalidOutputKind typ)
      else Inl MissingMarker)"
  by (simp add: validate_op_return_output_and_get_data_def effective_max_pushes_def
      InvalidOutputKind_def MissingMarker_def assms not_le)

lemma validate_truncated:
  assumes "get_ops (script a) = Inl e"
  shows "validate_op_return_output_and_get_data (typ, a, amount) max_size max_pushes =
     (let mp = effective_max_pushes max_size max_pushes in
      if mp < 1 then Inl AssertionError
      else if typ \<noteq> TYPE_SCRIPT then Inl (InvalidOutputKind typ)
      else Inl e)"
  by (simp add: validate_op_return_output_and_get_data_def effective_max_pushes_def
      InvalidOutputKind_def assms not_le)

subsection \<open>The wallet-close hook as a sequence of collaborator calls\<close>





section \<open>Specified properties\<close>

text \<open>
  Claim C1, as amended. For every output of script kind with zero amount whose script is
  \<^verbatim>\<open>OP_RETURN\<close> followed by \<open>k\<close> data pushes, with \<open>1 \<le> k \<le> max_pushes\<close> (\<^verbatim>\<open>None\<close>
  standing for \<^verbatim>\<open>max_size\<close>) and the pushes, as encoded in the script, taking at most
  \<^verbatim>\<open>max_size\<close> bytes in total, the
  validator returns \<^verbatim>\<open>script[2:]\<close>: the concatenated push length encodings and push
  payloads without their first byte, which is the opcode (length) byte of the first push.
  The result is a function of the input, so two runs on the same input return the same
  bytes. In particular, for the script made of \<^verbatim>\<open>OP_RETURN\<close>, the length prefix \<open>0x02\<close> and
  the two bytes "hi", with amount 0, \<^verbatim>\<open>max_size = 220\<close> and \<^verbatim>\<open>max_pushes = 1\<close>, it returns
  the bytes \<open>68 69\<close>.
\<close>

theorem validate_returns_script_after_first_push_byte:
  assumes "typ = TYPE_SCRIPT" and "amount = 0"
    and "script a = OP_RETURN # concat pushes"
    and "\<forall>p\<in>set pushes. is_data_push p"
    and "1 \<le> length pushes"
    and "int (length pushes) \<le> effective_max_pushes max_size max_pushes"
    and "int (length (concat pushes)) \<le> max_size"
  shows "validate_op_return_output_and_get_data (typ, a, amount) max_size max_pushes
           = Inr (tl (concat pushes))
         \<and> validate_op_return_output_and_get_data
             (TYPE_SCRIPT, ScriptOutput [OP_RETURN, 0x02, 0x68, 0x69], 0) 220 (Some 1)
           = Inr [0x68, 0x69]"
proof -
  from assms(4) obtain ops where o: "get_ops (concat pushes) = Inr ops"
    "length ops = length pushes" "\<forall>x\<in>set ops. snd x \<noteq> None"
    using get_ops_pushes by blast
  have p: "get_ops (script a) = Inr ((OP_RETURN, None) # ops)"
    by (simp add: assms(3) get_ops_marker o(1) del: get_ops.simps)
  have "int (length (drop 2 (script a))) \<le> max_size"
    using assms(7) by (simp add: assms(3))
  moreover have "drop 2 (script a) = tl (concat pushes)"
    by (simp add: assms(3) drop_Suc)
  moreover have "ops \<noteq> []" using o(2) assms(5) by auto
  ultimately have "validate_op_return_output_and_get_data (typ, a, amount) max_size max_pushes
           = Inr (tl (concat pushes))"
    using assms(1,2,5,6) o(2,3)
    by (simp add: validate_parsed [OF p] Let_def)
  moreover have "validate_op_return_output_and_get_data
             (TYPE_SCRIPT, ScriptOutput [OP_RETURN, 0x02, 0x68, 0x69], 0) 220 (Some 1)
           = Inr [0x68, 0x69]"
    by code_simp
  ultimately show ?thesis by simp
qed

text \<open>A script of two pushes, the second with \<^verbatim>\<open>OP_PUSHDATA1\<close>.\<close>

theorem validate_returns_script_after_first_push_byte_witness:
  "is_data_push [0x01, 0x68] \<and> is_data_push [0x4c, 0x01, 0x69]
   \<and> validate_op_return_output_and_get_data
        (TYPE_SCRIPT, ScriptOutput (OP_RETURN # concat [[0x01, 0x68], [0x4c, 0x01, 0x69]]), 0)
        220 (Some 2)
      = Inr [0x68, 0x4c, 0x01, 0x69]"
proof -
  have h1: "is_data_push [0x01, 0x68]" by code_simp
  have h2: "is_data_push [0x4c, 0x01, 0x69]" by code_simp
  have h3: "\<forall>p\<in>set [[0x01, 0x68], [0x4c, 0x01, 0x69]]. is_data_push p"
    using h1 h2 by simp
  have h4: "int (length [[0x01, 0x68], [0x4c, 0x01, 0x69 :: byte]]) \<le> effective_max_pushes 220 (Some 2)"
    by (simp add: effective_max_pushes_def)
  have "validate_op_return_output_and_get_data
        (TYPE_SCRIPT, ScriptOutput (OP_RETURN # concat [[0x01, 0x68], [0x4c, 0x01, 0x69]]), 0)
        220 (Some 2)
      = Inr (tl (concat [[0x01, 0x68], [0x4c, 0x01, 0x69]]))"
    using validate_returns_script_after_first_push_byte
      [where pushes = "[[0x01, 0x68], [0x4c, 0x01, 0x69]]", OF refl refl _ h3 _ h4]
    by simp
  then show ?thesis using h1 h2 by simp
qed

text \<open>
  Claim C1 as stated fails on its own example: the validator returns \<open>68 69\<close>, not the
  concatenated push encoding \<open>02 68 69\<close>.
\<close>

theorem validate_hi_example_counterexample:
  "is_data_push [0x02, 0x68, 0x69]
   \<and> validate_op_return_output_and_get_data
        (TYPE_SCRIPT, ScriptOutput [OP_RETURN, 0x02, 0x68, 0x69], 0) 220 (Some 1)
      = Inr [0x68, 0x69]
   \<and> validate_op_return_output_and_get_data
        (TYPE_SCRIPT, ScriptOutput [OP_RETURN, 0x02, 0x68, 0x69], 0) 220 (Some 1)
      \<noteq> Inr [0x02, 0x68, 0x69]"
  by code_simp

text \<open>
  Claim C2, as amended. For every output of script kind whose parsed script does not have
  the \<^verbatim>\<open>OP_RETURN\<close> marker opcode as its first operation (including the empty script), the
  validator fails with the MissingMarker rejection, regardless of what follows in the
  script, provided the limit on pushes (\<^verbatim>\<open>max_pushes\<close>, or \<^verbatim>\<open>max_size\<close> for \<^verbatim>\<open>None\<close>) is
  at least 1, as the function asserts before any check.
\<close>

theorem validate_missing_marker:
  assumes "typ = TYPE_SCRIPT"
    and "1 \<le> effective_max_pushes max_size max_pushes"
    and "get_ops (script a) = Inr ops"
    and "ops = [] \<or> fst (hd ops) \<noteq> OP_RETURN"
  shows "validate_op_return_output_and_get_data (typ, a, amount) max_size max_pushes
           = Inl MissingMarker"
proof (cases ops)
  case Nil
  with assms show ?thesis
    by (simp add: validate_empty)
next
  case (Cons m rest)
  with assms show ?thesis
    by (simp add: validate_parsed)
qed

text \<open>A push followed by \<^verbatim>\<open>OP_RETURN\<close>, and the empty script.\<close>

theorem validate_missing_marker_witness:
  "get_ops (script (ScriptOutput [0x02, 0x68, 0x69, OP_RETURN])) = Inr [(0x02, Some [0x68, 0x69]), (OP_RETURN, None)]
   \<and> validate_op_return_output_and_get_data
        (TYPE_SCRIPT, ScriptOutput [0x02, 0x68, 0x69, OP_RETURN], 0) 220 (Some 1) = Inl MissingMarker
   \<and> validate_op_return_output_and_get_data
        (TYPE_SCRIPT, ScriptOutput [], 0) 220 None = Inl MissingMarker"
proof -
  have h1: "get_ops (script (ScriptOutput [0x02, 0x68, 0x69, OP_RETURN]))
              = Inr [(0x02, Some [0x68, 0x69]), (OP_RETURN, None)]"
    by code_simp
  have h2: "1 \<le> effective_max_pushes 220 (Some 1)" "1 \<le> effective_max_pushes 220 None"
    by (simp_all add: effective_max_pushes_def)
  have h3: "[(0x02 :: byte, Some [0x68, 0x69 :: byte]), (OP_RETURN, None)] = []
              \<or> fst (hd [(0x02 :: byte, Some [0x68, 0x69 :: byte]), (OP_RETURN, None)]) \<noteq> OP_RETURN"
    by (simp add: OP_RETURN_def)
  have h4: "get_ops (script (ScriptOutput [])) = Inr []"
    by simp
  show ?thesis
    using validate_missing_marker [OF refl h2(1) h1 h3] validate_missing_marker [OF refl h2(2) h4] h1
    by simp
qed

text \<open>
  Claim C2 as stated fails when \<^verbatim>\<open>max_pushes\<close> is 0: the assertion fails before the marker
  is looked at.
\<close>

theorem validate_missing_marker_counterexample:
  "get_ops (script (ScriptOutput [0x02, 0x68, 0x69])) = Inr [(0x02, Some [0x68, 0x69])]
   \<and> fst (hd [(0x02 :: byte, Some [0x68, 0x69 :: byte])]) \<noteq> OP_RETURN
   \<and> validate_op_return_output_and_get_data
        (TYPE_SCRIPT, ScriptOutput [0x02, 0x68, 0x69], 0) 220 (Some 0) = Inl AssertionError
   \<and> validate_op_return_output_and_get_data
        (TYPE_SCRIPT, ScriptOutput [0x02, 0x68, 0x69], 0) 220 (Some 0) \<noteq> Inl MissingMarker"
  by code_simp

text \<open>
  Claim C3, as amended. For every output of script kind whose script starts with the
  \<^verbatim>\<open>OP_RETURN\<close> marker followed by \<open>k\<close> further operations, if \<open>k = 0\<close>, or \<open>k\<close> exceeds the
  limit on pushes, or any of those \<open>k\<close> operations carries no inline push data, the
  validator fails with the TooManyOrInvalidPushes rejection, and the error message uses the
  singular form exactly when the limit equals 1 and the plural form otherwise, provided the
  limit on pushes (\<^verbatim>\<open>max_pushes\<close>, or \<^verbatim>\<open>max_size\<close> for \<^verbatim>\<open>None\<close>) is at least 1, as the
  function asserts before any check.
\<close>

theorem validate_too_many_or_invalid_pushes:
  assumes "typ = TYPE_SCRIPT"
    and "1 \<le> effective_max_pushes max_size max_pushes"
    and "get_ops (script a) = Inr (m # rest)"
    and "fst m = OP_RETURN"
    and "rest = [] \<or> int (length rest) > effective_max_pushes max_size max_pushes
           \<or> (\<exists>x\<in>set rest. snd x = None)"
  shows "validate_op_return_output_and_get_data (typ, a, amount) max_size max_pushes
           = Inl (TooManyOrInvalidPushes (effective_max_pushes max_size max_pushes))
         \<and> TooManyOrInvalidPushes (effective_max_pushes max_size max_pushes)
           = RuntimeError
               (if effective_max_pushes max_size max_pushes = 1
                then ''OP_RETURN is limited to 1 data push.''
                else ''OP_RETURN is limited to ''
                       @ str_int (effective_max_pushes max_size max_pushes) @ '' data pushes.'')"
proof -
  have "str_int 1 = ''1''"
    by code_simp
  then have "TooManyOrInvalidPushes (effective_max_pushes max_size max_pushes)
           = RuntimeError
               (if effective_max_pushes max_size max_pushes = 1
                then ''OP_RETURN is limited to 1 data push.''
                else ''OP_RETURN is limited to ''
                       @ str_int (effective_max_pushes max_size max_pushes) @ '' data pushes.'')"
    by (simp add: TooManyOrInvalidPushes_def ngettext_def)
  moreover have "validate_op_return_output_and_get_data (typ, a, amount) max_size max_pushes
           = Inl (TooManyOrInvalidPushes (effective_max_pushes max_size max_pushes))"
    using assms(1,2,4,5) by (simp add: validate_parsed [OF assms(3)] Let_def)
  ultimately show ?thesis by simp
qed

text \<open>
  Two pushes with a limit of one; no push with a limit of two; an operation without data
  with no explicit limit.
\<close>

theorem validate_too_many_or_invalid_pushes_witness:
  "validate_op_return_output_and_get_data
     (TYPE_SCRIPT, ScriptOutput [OP_RETURN, 0x01, 0x68, 0x01, 0x69], 0) 220 (Some 1)
     = Inl (RuntimeError ''OP_RETURN is limited to 1 data push.'')
   \<and> validate_op_return_output_and_get_data
     (TYPE_SCRIPT, ScriptOutput [OP_RETURN], 0) 220 (Some 2)
     = Inl (RuntimeError ''OP_RETURN is limited to 2 data pushes.'')
   \<and> validate_op_return_output_and_get_data
     (TYPE_SCRIPT, ScriptOutput [OP_RETURN, 0x01, 0x68, OP_RETURN], 0) 220 None
     = Inl (RuntimeError ''OP_RETURN is limited to 220 data pushes.'')"
proof -
  have p1: "get_ops (script (ScriptOutput [OP_RETURN, 0x01, 0x68, 0x01, 0x69]))
              = Inr ((OP_RETURN, None) # [(0x01, Some [0x68]), (0x01, Some [0x69])])"
    by code_simp
  have p2: "get_ops (script (ScriptOutput [OP_RETURN])) = Inr ((OP_RETURN, None) # [])"
    by code_simp
  have p3: "get_ops (script (ScriptOutput [OP_RETURN, 0x01, 0x68, OP_RETURN]))
              = Inr ((OP_RETURN, None) # [(0x01, Some [0x68]), (OP_RETURN, None)])"
    by code_simp
  have e: "effective_max_pushes 220 (Some 1) = 1" "effective_max_pushes 220 (Some 2) = 2"
    "effective_max_pushes 220 None = 220"
    by (simp_all add: effective_max_pushes_def)
  have s: "str_int 2 = ''2''" "str_int 220 = ''220''"
    by code_simp+
  have "validate_op_return_output_and_get_data
     (TYPE_SCRIPT, ScriptOutput [OP_RETURN, 0x01, 0x68, 0x01, 0x69], 0) 220 (Some 1)
     = Inl (RuntimeError ''OP_RETURN is limited to 1 data push.'')"
    using validate_too_many_or_invalid_pushes [OF refl _ p1, of 220 "Some 1" 0]
    by (simp add: e)
  moreover have "validate_op_return_output_and_get_data
     (TYPE_SCRIPT, ScriptOutput [OP_RETURN], 0) 220 (Some 2)
     = Inl (RuntimeError ''OP_RETURN is limited to 2 data pushes.'')"
    using validate_too_many_or_invalid_pushes [OF refl _ p2, of 220 "Some 2" 0]
    by (simp add: e s)
  moreover have "validate_op_return_output_and_get_data
     (TYPE_SCRIPT, ScriptOutput [OP_RETURN, 0x01, 0x68, OP_RETURN], 0) 220 None
     = Inl (RuntimeError ''OP_RETURN is limited to 220 data pushes.'')"
    using validate_too_many_or_invalid_pushes [OF refl _ p3, of 220 None 0]
    by (simp add: e s)
  ultimately show ?thesis by simp
qed

text \<open>
  Claim C3 as stated fails when \<^verbatim>\<open>max_pushes\<close> is 0: one push exceeds the limit, and the
  assertion fails before the pushes are counted.
\<close>

theorem validate_too_many_or_invalid_pushes_counterexample:
  "get_ops (script (ScriptOutput [OP_RETURN, 0x01, 0x68]))
     = Inr [(OP_RETURN, None), (0x01, Some [0x68])]
   \<and> validate_op_return_output_and_get_data
        (TYPE_SCRIPT, ScriptOutput [OP_RETURN, 0x01, 0x68], 0) 220 (Some 0) = Inl AssertionError
   \<and> validate_op_return_output_and_get_data
        (TYPE_SCRIPT, ScriptOutput [OP_RETURN, 0x01, 0x68], 0) 220 (Some 0)
      \<noteq> Inl (TooManyOrInvalidPushes 0)"
  by code_simp

text \<open>
  Claim C4. For every output of script kind that passes the marker and push-count checks,
  if the extracted payload \<^verbatim>\<open>script[2:]\<close> is longer than \<^verbatim>\<open>max_size\<close> bytes the validator
  fails with the PayloadTooLarge rejection, even though the number of pushes is within
  the limit.
\<close>

theorem validate_payload_too_large:
  assumes "typ = TYPE_SCRIPT"
    and "get_ops (script a) = Inr (m # rest)"
    and "fst m = OP_RETURN"
    and "rest \<noteq> []"
    and "int (length rest) \<le> effective_max_pushes max_size max_pushes"
    and "\<forall>x\<in>set rest. snd x \<noteq> None"
    and "int (length (drop 2 (script a))) > max_size"
  shows "validate_op_return_output_and_get_data (typ, a, amount) max_size max_pushes
           = Inl (PayloadTooLarge max_size)"
proof -
  from assms(4) have "1 \<le> int (length rest)"
    by (cases rest) simp_all
  with assms(5) have "\<not> effective_max_pushes max_size max_pushes < 1"
    by simp
  moreover from assms(6) have "\<not> (\<exists>x\<in>set rest. snd x = None)"
    by blast
  ultimately show ?thesis
    using assms(1,3,4,5,7)
    by (auto simp: validate_parsed [OF assms(2)] Let_def)
qed

text \<open>One push of three bytes with \<^verbatim>\<open>max_size = 2\<close>.\<close>

theorem validate_payload_too_large_witness:
  "get_ops (script (ScriptOutput [OP_RETURN, 0x03, 0x61, 0x62, 0x63]))
     = Inr [(OP_RETURN, None), (0x03, Some [0x61, 0x62, 0x63])]
   \<and> int (length (drop 2 (script (ScriptOutput [OP_RETURN, 0x03, 0x61, 0x62, 0x63])))) > 2
   \<and> validate_op_return_output_and_get_data
        (TYPE_SCRIPT, ScriptOutput [OP_RETURN, 0x03, 0x61, 0x62, 0x63], 0) 2 (Some 1)
      = Inl (RuntimeError ''OP_RETURN data size exceeds the maximum of 2 bytes.'')"
proof -
  have p: "get_ops (script (ScriptOutput [OP_RETURN, 0x03, 0x61, 0x62, 0x63]))
     = Inr [(OP_RETURN, None), (0x03, Some [0x61, 0x62, 0x63])]"
    by code_simp
  have l: "int (length (drop 2 (script (ScriptOutput [OP_RETURN, 0x03, 0x61, 0x62, 0x63])))) > 2"
    by simp
  have s: "PayloadTooLarge 2 = RuntimeError ''OP_RETURN data size exceeds the maximum of 2 bytes.''"
    by code_simp
  have "validate_op_return_output_and_get_data
        (TYPE_SCRIPT, ScriptOutput [OP_RETURN, 0x03, 0x61, 0x62, 0x63], 0) 2 (Some 1)
      = Inl (PayloadTooLarge 2)"
    using validate_payload_too_large [OF refl p _ _ _ _ l, of "Some 1" 0]
    by (simp add: effective_max_pushes_def)
  with p l s show ?thesis by simp
qed

text \<open>
  Claim C5. For every output of script kind whose script passes the marker, push-count and
  size checks, if the amount is not zero the validator fails with the NonZeroAmount
  rejection.
\<close>

theorem validate_nonzero_amount:
  assumes "typ = TYPE_SCRIPT"
    and "get_ops (script a) = Inr (m # rest)"
    and "fst m = OP_RETURN"
    and "rest \<noteq> []"
    and "int (length rest) \<le> effective_max_pushes max_size max_pushes"
    and "\<forall>x\<in>set rest. snd x \<noteq> None"
    and "int (length (drop 2 (script a))) \<le> max_size"
    and "amount \<noteq> 0"
  shows "validate_op_return_output_and_get_data (typ, a, amount) max_size max_pushes
           = Inl NonZeroAmount"
proof -
  from assms(4) have "1 \<le> int (length rest)"
    by (cases rest) simp_all
  with assms(5) have "\<not> effective_max_pushes max_size max_pushes < 1"
    by simp
  moreover from assms(6) have "\<not> (\<exists>x\<in>set rest. snd x = None)"
    by blast
  ultimately show ?thesis
    using assms(1,3,4,5,7,8)
    by (auto simp: validate_parsed [OF assms(2)] Let_def)
qed

text \<open>The script \<^verbatim>\<open>OP_RETURN\<close> with one push and the amount 546.\<close>

theorem validate_nonzero_amount_witness:
  "get_ops (script (ScriptOutput [OP_RETURN, 0x02, 0x68, 0x69]))
     = Inr [(OP_RETURN, None), (0x02, Some [0x68, 0x69])]
   \<and> validate_op_return_output_and_get_data
        (TYPE_SCRIPT, ScriptOutput [OP_RETURN, 0x02, 0x68, 0x69], 546) 220 (Some 1)
      = Inl (RuntimeError ''Amount for OP_RETURN output must be zero.'')"
proof -
  have p: "get_ops (script (ScriptOutput [OP_RETURN, 0x02, 0x68, 0x69]))
     = Inr [(OP_RETURN, None), (0x02, Some [0x68, 0x69])]"
    by code_simp
  have "validate_op_return_output_and_get_data
        (TYPE_SCRIPT, ScriptOutput [OP_RETURN, 0x02, 0x68, 0x69], 546) 220 (Some 1)
      = Inl NonZeroAmount"
    using validate_nonzero_amount [OF refl p, of 220 "Some 1" 546]
    by (simp add: effective_max_pushes_def)
  with p show ?thesis by (simp add: NonZeroAmount_def gettext_def)
qed

text \<open>
  Claim C6. For every output and \<^verbatim>\<open>max_size\<close>, the validator called with
  \<^verbatim>\<open>max_pushes = None\<close> gives exactly the result (the bytes, or the exception and its
  message) of the call with \<^verbatim>\<open>max_pushes = max_size\<close>.
\<close>

theorem validate_max_pushes_None:
  "validate_op_return_output_and_get_data outp max_size None
     = validate_op_return_output_and_get_data outp max_size (Some max_size)"
  by (simp add: validate_op_return_output_and_get_data_def)

theorem validate_max_pushes_None_witness:
  "validate_op_return_output_and_get_data
     (TYPE_SCRIPT, ScriptOutput [OP_RETURN, 0x01, 0x68, 0x01, 0x69], 0) 4 (Some 4)
     = Inr [0x68, 0x01, 0x69]
   \<and> validate_op_return_output_and_get_data
     (TYPE_SCRIPT, ScriptOutput [OP_RETURN, 0x01, 0x68, 0x01, 0x69], 0) 4 None
     = Inr [0x68, 0x01, 0x69]"
proof -
  have "validate_op_return_output_and_get_data
     (TYPE_SCRIPT, ScriptOutput [OP_RETURN, 0x01, 0x68, 0x01, 0x69], 0) 4 (Some 4)
     = Inr [0x68, 0x01, 0x69]"
    by code_simp
  then show ?thesis
    using validate_max_pushes_None
      [of "(TYPE_SCRIPT, ScriptOutput [OP_RETURN, 0x01, 0x68, 0x01, 0x69], 0)" 4]
    by simp
qed



text \<open>
  Claim C8. For every plugin whose \<^verbatim>\<open>libraries_available\<close> flag is false, the wrapped
  operation returns \<^verbatim>\<open>None\<close> and leaves the world as it is, whatever the underlying
  function would do; for every plugin whose flag is true, it returns exactly what the
  underlying function returns on the same arguments.
\<close>

theorem only_hook_guard:
  "(\<not> libraries_available self \<longrightarrow>
      only_hook_if_libraries_available func self args w = Inr (None, w))
   \<and> (libraries_available self \<longrightarrow>
      only_hook_if_libraries_available func self args w = func self args w)"
  by (simp add: only_hook_if_libraries_available_def)

theorem only_hook_guard_witness:
  "only_hook_if_libraries_available (\<lambda>self n w. Inr (Some (n + w), Suc w))
     \<lparr>keystore_class = ''Ledger_KeyStore'', libraries_available = False\<rparr> (3 :: nat) (4 :: nat)
     = Inr (None, 4)
   \<and> only_hook_if_libraries_available (\<lambda>self n w. Inr (Some (n + w), Suc w))
     \<lparr>keystore_class = ''Ledger_KeyStore'', libraries_available = True\<rparr> (3 :: nat) (4 :: nat)
     = Inr (Some 7, 5)"
  using only_hook_guard [of "\<lparr>keystore_class = ''Ledger_KeyStore'', libraries_available = False\<rparr>"
      "\<lambda>self n w. Inr (Some (n + w), Suc w)" "3 :: nat" "4 :: nat"]
    only_hook_guard [of "\<lparr>keystore_class = ''Ledger_KeyStore'', libraries_available = True\<rparr>"
      "\<lambda>self n w. Inr (Some (n + w), Suc w)" "3 :: nat" "4 :: nat"]
  by simp

text \<open>
  Claim C9. For every argument list, the base plugin's \<^verbatim>\<open>setup_device\<close>,
  \<^verbatim>\<open>create_client\<close> and \<^verbatim>\<open>get_xpub\<close> fail with \<^verbatim>\<open>NotImplementedError\<close>, which is none of
  the validator's rejections.
\<close>

theorem abstract_methods_not_implemented:
  "setup_device self device_info wizard purpose = Inl NotImplementedError
   \<and> create_client self device handler = Inl NotImplementedError
   \<and> get_xpub self device_id derivation xtype wizard' = Inl NotImplementedError
   \<and> (\<forall>t n. NotImplementedError \<notin>
         {InvalidOutputKind t, MissingMarker, TooManyOrInvalidPushes n, PayloadTooLarge n, NonZeroAmount})"
  by (simp add: setup_device_def create_client_def get_xpub_def InvalidOutputKind_def
      MissingMarker_def TooManyOrInvalidPushes_def PayloadTooLarge_def NonZeroAmount_def)

text \<open>
  Claim C10, as amended. The validator fails with the assertion fault exactly when the
  limit on pushes (\<^verbatim>\<open>max_pushes\<close>, or \<^verbatim>\<open>max_size\<close> for \<^verbatim>\<open>None\<close>) is less than 1, whatever
  the output: with an explicit \<^verbatim>\<open>max_pushes\<close> less than 1 it fails before the kind check,
  parsing, marker, size and amount checks, and the assertion cannot fail when
  \<^verbatim>\<open>max_pushes\<close> is at least 1, or is \<^verbatim>\<open>None\<close> with \<^verbatim>\<open>max_size\<close> at least 1.
\<close>

theorem validate_assertion_iff:
  "validate_op_return_output_and_get_data outp max_size max_pushes = Inl AssertionError
     \<longleftrightarrow> effective_max_pushes max_size max_pushes < 1"
proof -
  obtain t a amount where out: "outp = (t, a, amount)"
    by (cases outp) auto
  show ?thesis
  proof (cases "get_ops (script a)")
    case (Inl e)
    then have "e \<noteq> AssertionError"
      using get_ops_error by blast
    then show ?thesis
      by (simp add: out validate_truncated [OF Inl] Let_def InvalidOutputKind_def)
  next
    case (Inr ops)
    show ?thesis
    proof (cases ops)
      case Nil
      with Inr show ?thesis
        by (simp add: out validate_empty Let_def InvalidOutputKind_def MissingMarker_def)
    next
      case (Cons m rest)
      with Inr have "get_ops (script a) = Inr (m # rest)" by simp
      then show ?thesis
        by (simp add: out validate_parsed Let_def InvalidOutputKind_def MissingMarker_def
            TooManyOrInvalidPushes_def PayloadTooLarge_def NonZeroAmount_def)
    qed
  qed
qed

text \<open>An output of another kind with a truncated script and a nonzero amount.\<close>

theorem validate_assertion_iff_witness:
  "validate_op_return_output_and_get_data (0, ScriptOutput [0x02], 5) 220 (Some 0)
     = Inl AssertionError
   \<and> validate_op_return_output_and_get_data (0, ScriptOutput [0x02], 5) 220 (Some 1)
     \<noteq> Inl AssertionError
   \<and> validate_op_return_output_and_get_data (0, ScriptOutput [0x02], 5) 220 None
     \<noteq> Inl AssertionError"
  using validate_assertion_iff [of "(0, ScriptOutput [0x02], 5)" 220 "Some 0"]
    validate_assertion_iff [of "(0, ScriptOutput [0x02], 5)" 220 "Some 1"]
    validate_assertion_iff [of "(0, ScriptOutput [0x02], 5)" 220 None]
  by (simp add: effective_max_pushes_def)

text \<open>
  Claim C10 as stated fails for \<^verbatim>\<open>max_pushes = None\<close> with \<^verbatim>\<open>max_size = 0\<close>: the assertion
  fails on an output that the explicit limit 1 accepts.
\<close>

theorem validate_assertion_None_counterexample:
  "validate_op_return_output_and_get_data (TYPE_SCRIPT, ScriptOutput [OP_RETURN, 0x00], 0) 0 None
     = Inl AssertionError
   \<and> validate_op_return_output_and_get_data (TYPE_SCRIPT, ScriptOutput [OP_RETURN, 0x00], 0) 0 (Some 1)
     = Inr []"
  by code_simp

end
